theory Spec2Isabelle
  imports Complex_Main "HOL-Library.AList" "HOL-Library.Multiset"
begin

section \<open>The file analyzer of \<^verbatim>\<open>src/file_analyzer/analyzer.py\<close>\<close>

text \<open>
  The class \<^verbatim>\<open>FileAnalyzer\<close> validates a directory path, walks the tree below it three
  times (files grouped by extension, aggregate statistics, large files) and writes a JSON
  report into the analysed directory. The embedding follows the Python text:
  \<^item> the operating system is a record of the answers the code asks for
    (\<^verbatim>\<open>os.path.exists\<close>, \<^verbatim>\<open>os.path.isdir\<close>, the tree \<^verbatim>\<open>os.walk\<close> traverses,
    \<^verbatim>\<open>os.path.getsize\<close>, the outcome of \<^verbatim>\<open>open(path, 'w')\<close> and of \<^verbatim>\<open>json.dump\<close>,
    \<^verbatim>\<open>str.lower\<close>);
  \<^item> every \<^verbatim>\<open>raise\<close> is a value: \<open>Inl\<close> of an \<open>error\<close>;
  \<^item> a \<^verbatim>\<open>dict\<close> is an association list in insertion order with distinct keys;
  \<^item> the two nested \<^verbatim>\<open>for\<close> loops are two nested \<open>fold\<close>s over the triples of the walk.
\<close>

subsection \<open>Library functions the code calls\<close>

text \<open>
  \<^verbatim>\<open>posixpath.join(a, b)\<close>: an absolute second component replaces the first; otherwise
  the components are concatenated, with one separator unless the first is empty or
  already ends with one.
\<close>

definition sep :: char where
  "sep = CHR ''/''"

definition extsep :: char where
  "extsep = CHR ''.''"

definition startswith_sep :: "string \<Rightarrow> bool" where
  "startswith_sep p = (case p of [] \<Rightarrow> False | c # _ \<Rightarrow> c = sep)"

definition endswith_sep :: "string \<Rightarrow> bool" where
  "endswith_sep p = (case rev p of [] \<Rightarrow> False | c # _ \<Rightarrow> c = sep)"

definition path_join :: "string \<Rightarrow> string \<Rightarrow> string" where
  "path_join a b =
     (if startswith_sep b then b
      else if a = [] \<or> endswith_sep a then a @ b
      else a @ [sep] @ b)"

text \<open>\<^verbatim>\<open>posixpath.isabs(p)\<close>: the path starts with the separator.\<close>

definition isabs :: "string \<Rightarrow> bool" where
  "isabs p = startswith_sep p"

text \<open>
  \<^verbatim>\<open>str.rfind(c)\<close> for a one-character needle: the highest index holding \<open>c\<close>, or \<open>-1\<close>.
\<close>

fun rfind_from :: "char \<Rightarrow> string \<Rightarrow> int \<Rightarrow> int \<Rightarrow> int" where
  "rfind_from c [] i found = found"
| "rfind_from c (x # xs) i found = rfind_from c xs (i + 1) (if x = c then i else found)"

definition rfind :: "string \<Rightarrow> char \<Rightarrow> int" where
  "rfind p c = rfind_from c p 0 (- 1)"

text \<open>
  \<^verbatim>\<open>posixpath.splitext(p)\<close>, that is \<^verbatim>\<open>genericpath._splitext(p, '/', None, '.')\<close>: the
  extension starts at the last dot, provided that dot comes after the last separator and
  some character between the separator and the dot is not a dot (leading dots belong to
  the name). The \<^verbatim>\<open>while\<close> loop of the library searches the slice
  \<^verbatim>\<open>p[sepIndex+1:dotIndex]\<close> for such a character.
\<close>

definition splitext :: "string \<Rightarrow> string \<times> string" where
  "splitext p =
     (let sepIndex = rfind p sep;
          dotIndex = rfind p extsep
      in if dotIndex > sepIndex \<and>
            list_ex (\<lambda>ch. ch \<noteq> extsep)
              (take (nat (dotIndex - (sepIndex + 1))) (drop (nat (sepIndex + 1)) p))
         then (take (nat dotIndex) p, drop (nat dotIndex) p)
         else (p, []))"

text \<open>
  \<^verbatim>\<open>str.lower()\<close> follows the Unicode tables of the interpreter, which are not part of the
  repository: it is a parameter of the model, the field \<open>str_lower\<close> of the environment
  below, acting on the UTF-8 bytes of a string. What is fixed here is its value on a string
  of ASCII characters: the letters \<open>A\<close> to \<open>Z\<close> are lower-cased and every other character
  is kept (\<open>ascii_lower\<close>).
\<close>

definition is_ascii :: "char \<Rightarrow> bool" where
  "is_ascii c = (\<not> digit7 c)"

definition ascii_lower_char :: "char \<Rightarrow> char" where
  "ascii_lower_char c =
     (case map_of (zip ''ABCDEFGHIJKLMNOPQRSTUVWXYZ'' ''abcdefghijklmnopqrstuvwxyz'') c of
        Some l \<Rightarrow> l
      | None \<Rightarrow> c)"

definition ascii_lower :: "string \<Rightarrow> string" where
  "ascii_lower s = map ascii_lower_char s"

text \<open>
  \<^verbatim>\<open>n / d\<close> on two integers is the float nearest to the quotient, and \<^verbatim>\<open>float(n)\<close> the
  float nearest to \<open>n\<close>: 53 significant bits, an exact tie going to the even neighbour.
  Floats are modelled by the real numbers they are. For a divisor that is a power of two,
  as \<open>1024 * 1024\<close> is, dividing only changes the exponent, so the quotient is
  \<^verbatim>\<open>float(n)\<close> divided exactly; \<open>truediv\<close> is used with such divisors only. Python raises
  \<^verbatim>\<open>OverflowError\<close> for a quotient of \<open>2 ^ 1024\<close> or more; a sum of file sizes does not
  get there, \<^verbatim>\<open>st_size\<close> being below \<open>2 ^ 63\<close>.

  \<^verbatim>\<open>round(x, ndigits)\<close> on a float is the decimal with \<open>ndigits\<close> places nearest to the
  value of \<open>x\<close>, an exact tie going to the even neighbour; the result stands for the float
  nearest to that decimal.
\<close>

definition round_half_even :: "real \<Rightarrow> int" where
  "round_half_even x =
     (let f = \<lfloor>x\<rfloor>; d = x - of_int f
      in if d < 1 / 2 then f
         else if 1 / 2 < d then f + 1
         else if even f then f else f + 1)"

fun bit_length :: "nat \<Rightarrow> nat" where
  "bit_length n = (if n = 0 then 0 else Suc (bit_length (n div 2)))"

declare bit_length.simps [simp del]

definition float_of_nat :: "nat \<Rightarrow> real" where
  "float_of_nat n =
     (let e = bit_length n - 53
      in of_int (round_half_even (of_nat n / 2 ^ e)) * 2 ^ e)"

definition truediv :: "nat \<Rightarrow> nat \<Rightarrow> real" where
  "truediv n d = float_of_nat n / of_nat d"

definition py_round :: "real \<Rightarrow> nat \<Rightarrow> real" where
  "py_round x ndigits = of_int (round_half_even (x * 10 ^ ndigits)) / 10 ^ ndigits"

text \<open>
  \<^verbatim>\<open>sorted(xs, key=f, reverse=True)\<close>: CPython reverses the list, sorts it stably in
  ascending order of the key and reverses the result, so equal keys keep their order.
\<close>

definition sorted_reverse :: "('a \<Rightarrow> 'k::linorder) \<Rightarrow> 'a list \<Rightarrow> 'a list" where
  "sorted_reverse f xs = rev (sort_key f (rev xs))"

text \<open>
  \<^verbatim>\<open>defaultdict\<close>: reading a missing key gives the default; storing keeps the position of
  an existing key and appends a new one (\<^const>\<open>AList.update\<close>).
\<close>

definition dict_get :: "('k \<times> 'v) list \<Rightarrow> 'k \<Rightarrow> 'v \<Rightarrow> 'v" where
  "dict_get d k dflt = (case map_of d k of None \<Rightarrow> dflt | Some v \<Rightarrow> v)"

subsection \<open>The file system\<close>

datatype entry = File string | Dir string "entry list"

datatype error = ValueError string | OSError | UnicodeEncodeError

text \<open>
  The report is a \<^verbatim>\<open>dict\<close> with values of four different shapes; the records below are
  the dictionaries with fixed keys that the methods return. A file written by
  \<^verbatim>\<open>json.dump\<close> holds the whole report (\<open>Complete\<close>, held by its value) or, when the
  writing raised after \<^verbatim>\<open>open\<close> had truncated the file, some beginning of it (\<open>Partial\<close>).
\<close>

record file_stats =
  total_files :: nat
  total_size_bytes :: nat
  total_size_mb :: real
  extensions_count :: "(string \<times> nat) list"

record large_file =
  path :: string
  size_bytes :: nat
  size_mb :: real

datatype report_value =
  RDirectory string
| RStatistics file_stats
| RFilesByExtension "(string \<times> string list) list"
| RLargeFiles "large_file list"

type_synonym report = "(string \<times> report_value) list"

datatype document = Complete report | Partial

text \<open>
  The environment of the program: the answers of the operating system; the outcome of
  \<^verbatim>\<open>open(path, 'w')\<close> (\<open>None\<close> when the file is opened, the exception when it raises:
  \<^verbatim>\<open>OSError\<close> when the file cannot be created, \<^verbatim>\<open>ValueError\<close> for a path with a null
  character); the outcome of \<^verbatim>\<open>json.dump\<close> and of closing the file (\<open>None\<close> when they
  return, the exception when one raises: \<^verbatim>\<open>UnicodeEncodeError\<close> for a file name that is
  not UTF-8, \<^verbatim>\<open>OSError\<close> for a failed write); the documents on disk; and \<^verbatim>\<open>str.lower\<close>.
\<close>

record filesystem =
  os_path_exists :: "string \<Rightarrow> bool"
  os_path_isdir :: "string \<Rightarrow> bool"
  listing :: "string \<Rightarrow> entry list"
  os_path_getsize :: "string \<Rightarrow> error + nat"
  open_raises :: "string \<Rightarrow> error option"
  write_raises :: "string \<Rightarrow> report \<Rightarrow> error option"
  documents :: "string \<rightharpoonup> document"
  str_lower :: "string \<Rightarrow> string"

definition lower_on_ascii :: "filesystem \<Rightarrow> bool" where
  "lower_on_ascii fs = (\<forall>s. list_all is_ascii s \<longrightarrow> str_lower fs s = ascii_lower s)"

text \<open>
  \<^verbatim>\<open>os.walk(top)\<close>, top-down: one triple (directory path, names of the subdirectories,
  names of the other entries) for the directory itself, then the walks of its
  subdirectories in order. \<open>listing fs d\<close> is the content of the directory \<open>d\<close>. An
  entry that is not a directory is a file of the walk whatever its kind; a directory that
  cannot be listed, or a link to a directory (not followed), is a \<open>Dir\<close> without content.
  The walk itself raises nothing (\<^verbatim>\<open>onerror\<close> is not set).
\<close>

fun dir_names :: "entry list \<Rightarrow> string list" where
  "dir_names [] = []"
| "dir_names (File n # es) = dir_names es"
| "dir_names (Dir n sub # es) = n # dir_names es"

fun file_names :: "entry list \<Rightarrow> string list" where
  "file_names [] = []"
| "file_names (File n # es) = n # file_names es"
| "file_names (Dir n sub # es) = file_names es"

fun walk :: "string \<Rightarrow> entry list \<Rightarrow> (string \<times> string list \<times> string list) list"
  and walk_subdirs :: "string \<Rightarrow> entry list \<Rightarrow> (string \<times> string list \<times> string list) list"
where
  "walk top_dir es = (top_dir, dir_names es, file_names es) # walk_subdirs top_dir es"
| "walk_subdirs top_dir [] = []"
| "walk_subdirs top_dir (File n # es) = walk_subdirs top_dir es"
| "walk_subdirs top_dir (Dir n sub # es) = walk (path_join top_dir n) sub @ walk_subdirs top_dir es"

definition os_walk :: "filesystem \<Rightarrow> string \<Rightarrow> (string \<times> string list \<times> string list) list" where
  "os_walk fs top_dir = walk top_dir (listing fs top_dir)"

subsection \<open>The class\<close>

record analyzer =
  directory :: string

text \<open>
  The two messages of \<^verbatim>\<open>__init__\<close> are Russian text, held as their UTF-8 bytes
  (\<open>CHR 0x20\<close> is the space). The first message is the word for "directory", the path
  and the two words for "does not exist" (\<open>phrase_not_exists\<close>); the second is the path
  and the three words for "is not a directory" (\<open>phrase_not_a_directory\<close>). The tests
  of the repository match these two phrases.
\<close>

definition msg_prefix :: string where
  "msg_prefix =
     [CHR 0xD0, CHR 0x94, CHR 0xD0, CHR 0xB8, CHR 0xD1, CHR 0x80, CHR 0xD0, CHR 0xB5,
      CHR 0xD0, CHR 0xBA, CHR 0xD1, CHR 0x82, CHR 0xD0, CHR 0xBE, CHR 0xD1, CHR 0x80,
      CHR 0xD0, CHR 0xB8, CHR 0xD1, CHR 0x8F, CHR 0x20]"

definition phrase_not_exists :: string where
  "phrase_not_exists =
     [CHR 0xD0, CHR 0xBD, CHR 0xD0, CHR 0xB5, CHR 0x20, CHR 0xD1, CHR 0x81, CHR 0xD1,
      CHR 0x83, CHR 0xD1, CHR 0x89, CHR 0xD0, CHR 0xB5, CHR 0xD1, CHR 0x81, CHR 0xD1,
      CHR 0x82, CHR 0xD0, CHR 0xB2, CHR 0xD1, CHR 0x83, CHR 0xD0, CHR 0xB5, CHR 0xD1,
      CHR 0x82]"

definition phrase_not_a_directory :: string where
  "phrase_not_a_directory =
     [CHR 0xD0, CHR 0xBD, CHR 0xD0, CHR 0xB5, CHR 0x20, CHR 0xD1, CHR 0x8F, CHR 0xD0,
      CHR 0xB2, CHR 0xD0, CHR 0xBB, CHR 0xD1, CHR 0x8F, CHR 0xD0, CHR 0xB5, CHR 0xD1,
      CHR 0x82, CHR 0xD1, CHR 0x81, CHR 0xD1, CHR 0x8F, CHR 0x20, CHR 0xD0, CHR 0xB4,
      CHR 0xD0, CHR 0xB8, CHR 0xD1, CHR 0x80, CHR 0xD0, CHR 0xB5, CHR 0xD0, CHR 0xBA,
      CHR 0xD1, CHR 0x82, CHR 0xD0, CHR 0xBE, CHR 0xD1, CHR 0x80, CHR 0xD0, CHR 0xB8,
      CHR 0xD0, CHR 0xB5, CHR 0xD0, CHR 0xB9]"

definition init :: "filesystem \<Rightarrow> string \<Rightarrow> error + analyzer" where
  "init fs dir =
     (if \<not> os_path_exists fs dir
      then Inl (ValueError (msg_prefix @ dir @ '' '' @ phrase_not_exists))
      else if \<not> os_path_isdir fs dir
      then Inl (ValueError (dir @ '' '' @ phrase_not_a_directory))
      else Inr \<lparr>directory = dir\<rparr>)"

definition ext_key :: "filesystem \<Rightarrow> string \<Rightarrow> string" where
  "ext_key fs file = str_lower fs (snd (splitext file))"

definition get_files_by_extension ::
  "filesystem \<Rightarrow> analyzer \<Rightarrow> string list option \<Rightarrow> (string \<times> string list) list" where
  "get_files_by_extension fs self extensions =
     fold (\<lambda>(root_dir, dirs, files) files_by_ext.
        fold (\<lambda>file files_by_ext.
           (let file_path = path_join root_dir file;
                ext = ext_key fs file
            in if (case extensions of None \<Rightarrow> True | Some exts \<Rightarrow> ext \<in> set exts)
               then AList.update ext (dict_get files_by_ext ext [] @ [file_path]) files_by_ext
               else files_by_ext))
          files files_by_ext)
       (os_walk fs (directory self)) []"

text \<open>
  The loop body of \<^verbatim>\<open>get_file_stats\<close>: the \<^verbatim>\<open>try\<close> block runs when
  \<^verbatim>\<open>os.path.getsize\<close> returns, the \<^verbatim>\<open>except OSError: continue\<close> branch leaves the three
  variables (\<open>total_files\<close>, \<open>total_size\<close>, \<open>extensions_count\<close>) as they were.
\<close>

definition stats_step :: "filesystem \<Rightarrow> string \<Rightarrow> string \<Rightarrow>
    nat \<times> nat \<times> (string \<times> nat) list \<Rightarrow> nat \<times> nat \<times> (string \<times> nat) list" where
  "stats_step fs root_dir file = (\<lambda>(n_files, total_size, ext_count).
     (let file_path = path_join root_dir file
      in case os_path_getsize fs file_path of
           Inr file_size \<Rightarrow>
             (n_files + 1, total_size + file_size,
              AList.update (ext_key fs file) (dict_get ext_count (ext_key fs file) 0 + 1)
                ext_count)
         | Inl e \<Rightarrow> (n_files, total_size, ext_count)))"

definition get_file_stats :: "filesystem \<Rightarrow> analyzer \<Rightarrow> file_stats" where
  "get_file_stats fs self =
     (case fold (\<lambda>(root_dir, dirs, files) acc. fold (stats_step fs root_dir) files acc)
             (os_walk fs (directory self)) (0, 0, [])
      of (n_files, total_size, ext_count) \<Rightarrow>
        \<lparr>total_files = n_files,
         total_size_bytes = total_size,
         total_size_mb = py_round (truediv total_size (1024 * 1024)) 2,
         extensions_count = ext_count\<rparr>)"

text \<open>
  The loop body of \<^verbatim>\<open>find_large_files\<close>. The threshold \<open>min_size_bytes\<close> is the float
  \<^verbatim>\<open>min_size_mb * 1024 * 1024\<close>, held as the real number it denotes; Python compares an
  integer with a float by value.
\<close>

definition large_step :: "filesystem \<Rightarrow> real \<Rightarrow> string \<Rightarrow> string \<Rightarrow>
    large_file list \<Rightarrow> large_file list" where
  "large_step fs min_size_bytes root_dir file large_files =
     (let file_path = path_join root_dir file
      in case os_path_getsize fs file_path of
           Inr file_size \<Rightarrow>
             if min_size_bytes \<le> of_nat file_size
             then large_files @
                    [\<lparr>path = file_path, size_bytes = file_size,
                      size_mb = py_round (truediv file_size (1024 * 1024)) 2\<rparr>]
             else large_files
         | Inl e \<Rightarrow> large_files)"

definition collect_large_files :: "filesystem \<Rightarrow> analyzer \<Rightarrow> real \<Rightarrow> large_file list" where
  "collect_large_files fs self min_size_mb =
     (let min_size_bytes = min_size_mb * 1024 * 1024
      in fold (\<lambda>(root_dir, dirs, files) large_files.
            fold (large_step fs min_size_bytes root_dir) files large_files)
           (os_walk fs (directory self)) [])"

definition find_large_files :: "filesystem \<Rightarrow> analyzer \<Rightarrow> real \<Rightarrow> large_file list" where
  "find_large_files fs self min_size_mb =
     sorted_reverse size_bytes (collect_large_files fs self min_size_mb)"

text \<open>
  \<^verbatim>\<open>generate_report\<close>: lines 128 to 137 assemble the dictionary, lines 139 to 143 write it
  and return the path. When \<^verbatim>\<open>open\<close> raises, the file system stays as it was. Once
  the file is open it has been truncated; when \<^verbatim>\<open>json.dump\<close> or the closing of the file
  then raises, the exception leaves the method, no path is returned and the file holds a
  part of the report. Nothing catches either exception. The result is the
  returned path or the exception, together with the file system afterwards.
\<close>

definition assemble_report :: "filesystem \<Rightarrow> analyzer \<Rightarrow> report" where
  "assemble_report fs self =
     (let stats = get_file_stats fs self;
          files_by_ext = get_files_by_extension fs self None;
          large_files = find_large_files fs self 10
      in [(''directory'', RDirectory (directory self)),
          (''statistics'', RStatistics stats),
          (''files_by_extension'', RFilesByExtension files_by_ext),
          (''large_files'', RLargeFiles (take 10 large_files))])"

definition generate_report :: "filesystem \<Rightarrow> analyzer \<Rightarrow> string \<Rightarrow> (error + string) \<times> filesystem" where
  "generate_report fs self output_file =
     (let report = assemble_report fs self;
          output_path = path_join (directory self) output_file
      in case open_raises fs output_path of
           Some e \<Rightarrow> (Inl e, fs)
         | None \<Rightarrow>
             (case write_raises fs output_path report of
                Some e \<Rightarrow> (Inl e, fs\<lparr>documents := (documents fs)(output_path \<mapsto> Partial)\<rparr>)
              | None \<Rightarrow>
                  (Inr output_path,
                   fs\<lparr>documents := (documents fs)(output_path \<mapsto> Complete report)\<rparr>)))"

subsection \<open>The files of a walk, in traversal order\<close>

text \<open>
  The two nested loops of each method visit the pairs (directory path, file name) of the
  walk in one fixed order; \<open>walk_files\<close> lists them, \<open>file_paths\<close> joins each pair into
  the \<open>file_path\<close> the loop body computes.
\<close>

definition walk_files :: "(string \<times> string list \<times> string list) list \<Rightarrow> (string \<times> string) list" where
  "walk_files w = concat (map (\<lambda>(root_dir, dirs, files). map (Pair root_dir) files) w)"

definition all_files :: "filesystem \<Rightarrow> analyzer \<Rightarrow> (string \<times> string) list" where
  "all_files fs self = walk_files (os_walk fs (directory self))"

definition file_paths :: "filesystem \<Rightarrow> analyzer \<Rightarrow> string list" where
  "file_paths fs self = map (\<lambda>(root_dir, file). path_join root_dir file) (all_files fs self)"

text \<open>A file is accessible when \<^verbatim>\<open>os.path.getsize\<close> returns for its path.\<close>

definition accessible :: "filesystem \<Rightarrow> string \<Rightarrow> bool" where
  "accessible fs p = (case os_path_getsize fs p of Inr n \<Rightarrow> True | Inl e \<Rightarrow> False)"

text \<open>What a file adds to \<open>total_size\<close>: its size, or nothing when the size cannot be read.\<close>

definition size_or_zero :: "filesystem \<Rightarrow> string \<Rightarrow> nat" where
  "size_or_zero fs p = (case os_path_getsize fs p of Inr n \<Rightarrow> n | Inl e \<Rightarrow> 0)"

text \<open>The loop invariant of \<^verbatim>\<open>get_file_stats\<close> on its three variables.\<close>

definition stats_inv :: "nat \<times> nat \<times> (string \<times> nat) list \<Rightarrow> bool" where
  "stats_inv acc = (case acc of (n, s, ec) \<Rightarrow>
      sum_list (map snd ec) = n \<and> list_all (\<lambda>kv. 1 \<le> snd kv) ec \<and> distinct (map fst ec))"

text \<open>
  The condition and the body of the inner loop of \<^verbatim>\<open>get_files_by_extension\<close>, and the
  entry the inner loop of \<^verbatim>\<open>find_large_files\<close> appends for one path, as functions of
  their own; the lemmas below show that the methods are folds of these.
\<close>

definition selected :: "string list option \<Rightarrow> string \<Rightarrow> bool" where
  "selected extensions ext = (case extensions of None \<Rightarrow> True | Some exts \<Rightarrow> ext \<in> set exts)"

definition group_step :: "filesystem \<Rightarrow> string list option \<Rightarrow> string \<Rightarrow> string \<Rightarrow>
    (string \<times> string list) list \<Rightarrow> (string \<times> string list) list" where
  "group_step fs extensions root_dir file files_by_ext =
     (if selected extensions (ext_key fs file)
      then AList.update (ext_key fs file)
             (dict_get files_by_ext (ext_key fs file) [] @ [path_join root_dir file])
             files_by_ext
      else files_by_ext)"

definition large_entry :: "filesystem \<Rightarrow> real \<Rightarrow> string \<Rightarrow> large_file option" where
  "large_entry fs min_size_bytes p =
     (case os_path_getsize fs p of
        Inr n \<Rightarrow>
          if min_size_bytes \<le> of_nat n
          then Some \<lparr>path = p, size_bytes = n,
                     size_mb = py_round (truediv n (1024 * 1024)) 2\<rparr>
          else None
      | Inl e \<Rightarrow> None)"


text \<open>
  \<^verbatim>\<open>needle in haystack\<close> on strings, and the message of a raised \<^verbatim>\<open>ValueError\<close>
  (\<^verbatim>\<open>str(e)\<close>; empty when nothing was raised).
\<close>

fun str_contains :: "string \<Rightarrow> string \<Rightarrow> bool" where
  "str_contains [] needle = (needle = [])"
| "str_contains (c # cs) needle =
     (take (length needle) (c # cs) = needle \<or> str_contains cs needle)"

definition error_message :: "error + 'a \<Rightarrow> string" where
  "error_message r = (case r of Inl (ValueError m) \<Rightarrow> m | _ \<Rightarrow> [])"

text \<open>
  The paths of all files of a directory tree, by recursion on the tree; and the tree
  without the files whose size cannot be read (\<open>accessible_part\<close> is the file system with
  these files deleted, everything else unchanged).
\<close>

fun tree_files :: "string \<Rightarrow> entry list \<Rightarrow> string list" where
  "tree_files top_dir [] = []"
| "tree_files top_dir (File n # es) = path_join top_dir n # tree_files top_dir es"
| "tree_files top_dir (Dir n sub # es) =
     tree_files (path_join top_dir n) sub @ tree_files top_dir es"

fun without_inaccessible :: "(string \<Rightarrow> error + nat) \<Rightarrow> string \<Rightarrow> entry list \<Rightarrow> entry list" where
  "without_inaccessible size_of top_dir [] = []"
| "without_inaccessible size_of top_dir (File n # es) =
     (case size_of (path_join top_dir n) of
        Inl e \<Rightarrow> without_inaccessible size_of top_dir es
      | Inr s \<Rightarrow> File n # without_inaccessible size_of top_dir es)"
| "without_inaccessible size_of top_dir (Dir n sub # es) =
     Dir n (without_inaccessible size_of (path_join top_dir n) sub)
       # without_inaccessible size_of top_dir es"

definition accessible_part :: "filesystem \<Rightarrow> filesystem" where
  "accessible_part fs =
     fs\<lparr>listing := (\<lambda>d. without_inaccessible (os_path_getsize fs) d (listing fs d))\<rparr>"

definition readable :: "(string \<Rightarrow> error + nat) \<Rightarrow> string \<times> string \<Rightarrow> bool" where
  "readable size_of rf = (case size_of (path_join (fst rf) (snd rf)) of Inr n \<Rightarrow> True | Inl e \<Rightarrow> False)"

subsection \<open>Two concrete file systems\<close>

text \<open>
  \<open>scenario_fs\<close> is the directory of the test scenario: \<^verbatim>\<open>a.py\<close> (15 bytes),
  \<^verbatim>\<open>b.TXT\<close> (20 bytes) and \<^verbatim>\<open>c\<close> (5 bytes) in a directory \<^verbatim>\<open>d\<close>. \<open>mixed_fs\<close> is the
  current directory \<^verbatim>\<open>.\<close> with a subdirectory, two files of equal size, one file of
  12 MB and one file whose size cannot be read.
\<close>

definition getsize_of :: "(string \<times> nat) list \<Rightarrow> string \<Rightarrow> error + nat" where
  "getsize_of sizes p = (case map_of sizes p of None \<Rightarrow> Inl OSError | Some n \<Rightarrow> Inr n)"

definition scenario_fs :: filesystem where
  "scenario_fs =
     \<lparr>os_path_exists = (\<lambda>p. p \<in> set [''d'', ''d/a.py'', ''d/b.TXT'', ''d/c'']),
      os_path_isdir = (\<lambda>p. p = ''d''),
      listing = (\<lambda>p. if p = ''d'' then [File ''a.py'', File ''b.TXT'', File ''c''] else []),
      os_path_getsize = getsize_of [(''d/a.py'', 15), (''d/b.TXT'', 20), (''d/c'', 5)],
      open_raises = (\<lambda>p. None),
      write_raises = (\<lambda>p r. None),
      documents = Map.empty,
      str_lower = ascii_lower\<rparr>"

definition scenario_dir :: analyzer where
  "scenario_dir = \<lparr>directory = ''d''\<rparr>"

definition mixed_fs :: filesystem where
  "mixed_fs =
     \<lparr>os_path_exists = (\<lambda>p. p \<in> set [''.'', ''./sub'', ''./x.bin'', ''./locked'',
                                        ''./sub/y.bin'', ''./sub/z.log'']),
      os_path_isdir = (\<lambda>p. p \<in> set [''.'', ''./sub'']),
      listing = (\<lambda>p. if p = ''.''
                      then [File ''x.bin'', Dir ''sub'' [File ''y.bin'', File ''z.log''],
                            File ''locked'']
                      else []),
      os_path_getsize = getsize_of [(''./x.bin'', 131072), (''./sub/y.bin'', 12582912),
                                    (''./sub/z.log'', 131072)],
      open_raises = (\<lambda>p. None),
      write_raises = (\<lambda>p r. None),
      documents = Map.empty,
      str_lower = ascii_lower\<rparr>"

definition mixed_dir :: analyzer where
  "mixed_dir = \<lparr>directory = ''.''\<rparr>"

text \<open>
  \<open>mixed_fs\<close> with an earlier, empty report already in place; \<open>mixed_fs\<close> where no file can
  be created; \<open>mixed_fs\<close> where \<^verbatim>\<open>json.dump\<close> raises \<^verbatim>\<open>UnicodeEncodeError\<close>; and the
  directory \<^verbatim>\<open>d\<close> holding one sparse file of \<open>2 ^ 53 + 15729\<close> bytes.
\<close>

definition overwrite_fs :: filesystem where
  "overwrite_fs = mixed_fs\<lparr>documents := [''./file_report.json'' \<mapsto> Complete []]\<rparr>"

definition readonly_fs :: filesystem where
  "readonly_fs = mixed_fs\<lparr>open_raises := (\<lambda>p. Some OSError)\<rparr>"

definition undecodable_fs :: filesystem where
  "undecodable_fs = mixed_fs\<lparr>write_raises := (\<lambda>p r. Some UnicodeEncodeError)\<rparr>"

definition sparse_fs :: filesystem where
  "sparse_fs =
     \<lparr>os_path_exists = (\<lambda>p. p \<in> set [''d'', ''d/disk.img'']),
      os_path_isdir = (\<lambda>p. p = ''d''),
      listing = (\<lambda>p. if p = ''d'' then [File ''disk.img''] else []),
      os_path_getsize = getsize_of [(''d/disk.img'', 9007199254756721)],
      open_raises = (\<lambda>p. None),
      write_raises = (\<lambda>p r. None),
      documents = Map.empty,
      str_lower = ascii_lower\<rparr>"

section \<open>Properties\<close>

subsection \<open>The loops as one fold over the files\<close>

lemma fold_walk_files:
  "fold (\<lambda>(r, d, fs) acc. fold (g r) fs acc) w acc = fold (\<lambda>(r, f). g r f) (walk_files w) acc"
  by (induction w arbitrary: acc) (auto simp: walk_files_def fold_map comp_def)

lemma get_file_stats_fold:
  "get_file_stats fs self =
     (case fold (\<lambda>(r, f). stats_step fs r f) (all_files fs self) (0, 0, []) of
        (n_files, total_size, ext_count) \<Rightarrow>
          \<lparr>total_files = n_files, total_size_bytes = total_size,
           total_size_mb = py_round (truediv total_size (1024 * 1024)) 2,
           extensions_count = ext_count\<rparr>)"
  unfolding get_file_stats_def all_files_def by (simp only: fold_walk_files)

subsection \<open>The two example directories, evaluated\<close>

lemma ext_key_examples:
  "ext_key scenario_fs ''a.py'' = ''.py''" "ext_key scenario_fs ''b.TXT'' = ''.txt''"
  "ext_key scenario_fs ''c'' = []"
  "ext_key mixed_fs ''x.bin'' = ''.bin''" "ext_key mixed_fs ''y.bin'' = ''.bin''"
  "ext_key mixed_fs ''z.log'' = ''.log''" "ext_key mixed_fs ''locked'' = []"
  by (simp_all add: ext_key_def scenario_fs_def mixed_fs_def splitext_def rfind_def sep_def
      extsep_def ascii_lower_def ascii_lower_char_def)

lemma bit_length_le: "n < 2 ^ k \<Longrightarrow> bit_length n \<le> k"
proof (induction k arbitrary: n)
  case 0
  then show ?case by (simp add: bit_length.simps)
next
  case (Suc k)
  then have "n div 2 < 2 ^ k" by simp
  from Suc.IH[OF this] show ?case
    by (subst bit_length.simps) simp
qed

lemma round_half_even_of_nat: "round_half_even (of_nat n) = int n"
  by (simp add: round_half_even_def)

lemma truediv_small: "n < 2 ^ 53 \<Longrightarrow> truediv n d = of_nat n / of_nat d"
  using bit_length_le[of n 53]
  by (simp add: truediv_def float_of_nat_def round_half_even_of_nat)

lemma all_files_scenario:
  "all_files scenario_fs scenario_dir = [(''d'', ''a.py''), (''d'', ''b.TXT''), (''d'', ''c'')]"
  by (simp add: all_files_def walk_files_def os_walk_def scenario_dir_def scenario_fs_def)

lemma all_files_mixed:
  "all_files mixed_fs mixed_dir =
     [(''.'', ''x.bin''), (''.'', ''locked''), (''./sub'', ''y.bin''), (''./sub'', ''z.log'')]"
  by (simp add: all_files_def walk_files_def os_walk_def mixed_dir_def mixed_fs_def
      path_join_def startswith_sep_def endswith_sep_def sep_def)

lemma path_join_examples:
  "path_join ''d'' ''a.py'' = ''d/a.py''" "path_join ''d'' ''b.TXT'' = ''d/b.TXT''"
  "path_join ''d'' ''c'' = ''d/c''" "path_join ''.'' ''x.bin'' = ''./x.bin''"
  "path_join ''.'' ''locked'' = ''./locked''" "path_join ''./sub'' ''y.bin'' = ''./sub/y.bin''"
  "path_join ''./sub'' ''z.log'' = ''./sub/z.log''"
  "path_join ''.'' ''file_report.json'' = ''./file_report.json''"
  by (simp_all add: path_join_def startswith_sep_def endswith_sep_def sep_def)

lemma getsize_scenario:
  "os_path_getsize scenario_fs ''d/a.py'' = Inr 15"
  "os_path_getsize scenario_fs ''d/b.TXT'' = Inr 20"
  "os_path_getsize scenario_fs ''d/c'' = Inr 5"
  by (simp_all add: scenario_fs_def getsize_of_def)

lemma getsize_mixed:
  "os_path_getsize mixed_fs ''./x.bin'' = Inr 131072"
  "os_path_getsize mixed_fs ''./locked'' = Inl OSError"
  "os_path_getsize mixed_fs ''./sub/y.bin'' = Inr 12582912"
  "os_path_getsize mixed_fs ''./sub/z.log'' = Inr 131072"
  by (simp_all add: mixed_fs_def getsize_of_def)

lemma stats_scenario:
  "get_file_stats scenario_fs scenario_dir =
     \<lparr>total_files = 3, total_size_bytes = 40, total_size_mb = 0,
      extensions_count = [(''.py'', 1), (''.txt'', 1), ('''', 1)]\<rparr>"
  by (simp add: get_file_stats_fold all_files_scenario stats_step_def path_join_examples
      getsize_scenario ext_key_examples dict_get_def truediv_small py_round_def
      round_half_even_def Let_def)

lemma stats_mixed:
  "get_file_stats mixed_fs mixed_dir =
     \<lparr>total_files = 3, total_size_bytes = 12845056, total_size_mb = 49 / 4,
      extensions_count = [(''.bin'', 2), (''.log'', 1)]\<rparr>"
  by (simp add: get_file_stats_fold all_files_mixed stats_step_def path_join_examples
      getsize_mixed ext_key_examples dict_get_def truediv_small py_round_def
      round_half_even_def Let_def)

subsection \<open>Counting files by extension\<close>

lemma sum_update_count:
  "sum_list (map snd (AList.update k (dict_get ec k 0 + 1) ec)) = sum_list (map snd ec) + (1::nat)"
  by (induction ec) (auto simp: dict_get_def)

lemma set_update_subset: "set (AList.update k v al) \<subseteq> insert (k, v) (set al)"
  by (induction al) auto

lemma stats_step_inv:
  assumes "stats_inv acc"
  shows "stats_inv (stats_step fs r f acc)"
proof (cases acc)
  case (fields n s ec)
  show ?thesis
  proof (cases "os_path_getsize fs (path_join r f)")
    case (Inl e)
    then show ?thesis using assms fields by (simp add: stats_step_def)
  next
    case (Inr sz)
    let ?ec' = "AList.update (ext_key fs f) (dict_get ec (ext_key fs f) 0 + 1) ec"
    have step: "stats_step fs r f acc = (n + 1, s + sz, ?ec')"
      using Inr fields by (simp add: stats_step_def)
    have "sum_list (map snd ec) = n"
      using assms fields by (simp add: stats_inv_def)
    then have "sum_list (map snd ?ec') = n + 1"
      by (simp only: sum_update_count)
    moreover have "list_all (\<lambda>kv. 1 \<le> snd kv) ?ec'"
      using set_update_subset[of "ext_key fs f" "dict_get ec (ext_key fs f) 0 + 1" ec] assms fields
      unfolding list_all_iff stats_inv_def by fastforce
    moreover have "distinct (map fst ?ec')"
      using assms fields by (simp add: stats_inv_def distinct_update)
    ultimately show ?thesis
      unfolding step stats_inv_def by simp
  qed
qed

lemma stats_fold_inv:
  "stats_inv acc \<Longrightarrow> stats_inv (fold (\<lambda>(r, f). stats_step fs r f) xs acc)"
proof (induction xs arbitrary: acc)
  case Nil
  then show ?case by simp
next
  case (Cons x xs)
  obtain r f where x: "x = (r, f)" by (cases x)
  show ?case
    using Cons.IH[OF stats_step_inv[OF Cons.prems, of fs r f]] by (simp add: x)
qed

text \<open>
  C10. In every summary returned by \<^verbatim>\<open>get_file_stats\<close>, \<open>total_files\<close> is the sum of the
  counts in \<open>extensions_count\<close>, every count is at least 1, and no key occurs twice (the
  association list is a dictionary).
\<close>

theorem total_files_is_sum_of_extension_counts:
  "total_files (get_file_stats fs self)
     = sum_list (map snd (extensions_count (get_file_stats fs self)))
   \<and> (\<forall>(k, c) \<in> set (extensions_count (get_file_stats fs self)). 1 \<le> c)
   \<and> distinct (map fst (extensions_count (get_file_stats fs self)))"
proof -
  have "stats_inv (0, 0, [])"
    by (simp add: stats_inv_def)
  from stats_fold_inv[OF this, of fs "all_files fs self"]
  show ?thesis
    by (auto simp: get_file_stats_fold stats_inv_def list_all_iff split: prod.splits)
qed

theorem total_files_is_sum_of_extension_counts_witness:
  "(''.bin'', 2) \<in> set (extensions_count (get_file_stats mixed_fs mixed_dir))
   \<and> total_files (get_file_stats mixed_fs mixed_dir) = 3
   \<and> sum_list (map snd (extensions_count (get_file_stats mixed_fs mixed_dir))) = 3
   \<and> (1::nat) \<le> 2"
  using total_files_is_sum_of_extension_counts[of mixed_fs mixed_dir]
  by (simp add: stats_mixed)

subsection \<open>The walk visits the files of the tree\<close>

lemma walk_files_append: "walk_files (xs @ ys) = walk_files xs @ walk_files ys"
  by (simp add: walk_files_def)

lemma walk_files_walk:
  "walk_files (walk top_dir es)
     = map (Pair top_dir) (file_names es) @ walk_files (walk_subdirs top_dir es)"
  by (simp add: walk_files_def)

lemma mset_tree_files:
  "mset (map (\<lambda>(r, f). path_join r f) (walk_files (walk_subdirs top_dir es)))
     + mset (map (path_join top_dir) (file_names es))
   = mset (tree_files top_dir es)"
proof (induction top_dir es rule: tree_files.induct)
  case (1 top_dir)
  then show ?case by (simp add: walk_files_def)
next
  case (2 top_dir n es)
  then show ?case by simp
next
  case (3 top_dir n sub es)
  have "mset (map (\<lambda>(r, f). path_join r f) (walk_files (walk (path_join top_dir n) sub)))
      = mset (tree_files (path_join top_dir n) sub)"
    using "3.IH"(1) unfolding walk_files_walk by (simp add: comp_def add.commute)
  with "3.IH"(2) show ?case
    by (simp add: walk_files_append del: walk.simps)
qed

lemma mset_file_paths:
  "mset (file_paths fs self) = mset (tree_files (directory self) (listing fs (directory self)))"
  using mset_tree_files[of "directory self" "listing fs (directory self)"]
  unfolding file_paths_def all_files_def os_walk_def walk_files_walk
  by (simp add: comp_def add.commute)

subsection \<open>The extension key\<close>

text \<open>
  What \<^verbatim>\<open>os.path.splitext\<close> gives for a file name (a string without separator): when the
  name has a dot with some character other than a dot before its last dot, the extension
  is the end of the name from that last dot on; otherwise (no dot, or only dots before
  the last one, as in \<^verbatim>\<open>.bashrc\<close>) it is empty. The key is \<^verbatim>\<open>str.lower\<close> of the extension.
\<close>

lemma rfind_from_absent: "c \<notin> set xs \<Longrightarrow> rfind_from c xs i found = found"
  by (induction xs arbitrary: i) auto

lemma rfind_from_append:
  "rfind_from c (xs @ ys) i found
     = rfind_from c ys (i + int (length xs)) (rfind_from c xs i found)"
  by (induction xs arbitrary: i found) (auto simp: algebra_simps)

lemma rfind_absent: "c \<notin> set p \<Longrightarrow> rfind p c = - 1"
  by (simp add: rfind_def rfind_from_absent)

lemma rfind_last: "c \<notin> set rest \<Longrightarrow> rfind (stem @ c # rest) c = int (length stem)"
  by (simp add: rfind_def rfind_from_append rfind_from_absent)

lemma splitext_extension:
  assumes "sep \<notin> set stem" "sep \<notin> set rest" "extsep \<notin> set rest"
    and "\<exists>c \<in> set stem. c \<noteq> extsep"
  shows "splitext (stem @ extsep # rest) = (stem, extsep # rest)"
proof -
  have "sep \<noteq> extsep"
    by (simp add: sep_def extsep_def)
  with assms(1,2) have "sep \<notin> set (stem @ extsep # rest)"
    by auto
  then have no_sep: "rfind (stem @ extsep # rest) sep = - 1"
    by (rule rfind_absent)
  have dot: "rfind (stem @ extsep # rest) extsep = int (length stem)"
    using assms(3) by (rule rfind_last)
  have "list_ex (\<lambda>ch. ch \<noteq> extsep) stem"
    using assms(4) by (simp add: list_ex_iff)
  then show ?thesis
    by (simp add: splitext_def no_sep dot)
qed

lemma splitext_no_extension:
  assumes "sep \<notin> set rest" "extsep \<notin> set rest"
  shows "splitext (replicate n extsep @ rest) = (replicate n extsep @ rest, [])"
proof -
  have "sep \<noteq> extsep"
    by (simp add: sep_def extsep_def)
  with assms(1) have "sep \<notin> set (replicate n extsep @ rest)"
    by auto
  then have no_sep: "rfind (replicate n extsep @ rest) sep = - 1"
    by (rule rfind_absent)
  show ?thesis
  proof (cases n)
    case 0
    then have "rfind (replicate n extsep @ rest) extsep = - 1"
      using assms(2) by (simp add: rfind_absent)
    then show ?thesis
      by (simp add: splitext_def no_sep)
  next
    case (Suc m)
    have shape: "replicate n extsep @ rest = replicate m extsep @ extsep # rest"
      by (simp add: Suc replicate_app_Cons_same)
    have dot: "rfind (replicate n extsep @ rest) extsep = int m"
      unfolding shape using rfind_last[OF assms(2), of "replicate m extsep"] by simp
    have "\<not> list_ex (\<lambda>ch. ch \<noteq> extsep) (take m (replicate n extsep @ rest))"
      by (simp add: shape list_ex_iff)
    then show ?thesis
      by (simp add: splitext_def no_sep dot)
  qed
qed

lemma ext_key_extension:
  assumes "sep \<notin> set stem" "sep \<notin> set rest" "extsep \<notin> set rest"
    and "\<exists>c \<in> set stem. c \<noteq> extsep"
  shows "ext_key fs (stem @ extsep # rest) = str_lower fs (extsep # rest)"
  by (simp add: ext_key_def splitext_extension[OF assms])

lemma ext_key_no_extension:
  assumes "sep \<notin> set rest" "extsep \<notin> set rest"
  shows "ext_key fs (replicate n extsep @ rest) = str_lower fs []"
  by (simp add: ext_key_def splitext_no_extension[OF assms])

lemma lower_on_ascii_empty: "lower_on_ascii fs \<Longrightarrow> str_lower fs [] = []"
  by (simp add: lower_on_ascii_def ascii_lower_def)

lemma lower_on_ascii_extension:
  assumes "lower_on_ascii fs" "list_all is_ascii rest"
  shows "str_lower fs (extsep # rest) = extsep # ascii_lower rest"
proof -
  have "list_all is_ascii (extsep # rest)"
    using assms(2) by (simp add: is_ascii_def extsep_def)
  then have "str_lower fs (extsep # rest) = ascii_lower (extsep # rest)"
    using assms(1) by (simp add: lower_on_ascii_def)
  then show ?thesis
    by (simp add: ascii_lower_def ascii_lower_char_def extsep_def)
qed

lemma ext_key_ascii:
  assumes "lower_on_ascii fs" "list_all is_ascii (snd (splitext name))"
  shows "ext_key fs name = ascii_lower (snd (splitext name))"
  using assms by (simp add: ext_key_def lower_on_ascii_def)

subsection \<open>Grouping by extension\<close>

lemma get_files_by_extension_fold:
  "get_files_by_extension fs self extensions
     = fold (\<lambda>(r, f). group_step fs extensions r f) (all_files fs self) []"
proof -
  have "get_files_by_extension fs self extensions
      = fold (\<lambda>(r, d, names) acc. fold (group_step fs extensions r) names acc)
          (os_walk fs (directory self)) []"
    by (simp add: get_files_by_extension_def group_step_def[abs_def] selected_def Let_def)
  also have "\<dots> = fold (\<lambda>(r, f). group_step fs extensions r f) (all_files fs self) []"
    by (simp only: fold_walk_files all_files_def)
  finally show ?thesis .
qed

lemma group_step_lookup:
  "map_of (group_step fs exts r f d) k =
     (if ext_key fs f = k \<and> selected exts k then Some (dict_get d k [] @ [path_join r f])
      else map_of d k)"
  by (auto simp: group_step_def update_conv')

lemma group_step_get:
  "dict_get (group_step fs exts r f d) k [] =
     (if ext_key fs f = k \<and> selected exts k then dict_get d k [] @ [path_join r f]
      else dict_get d k [])"
  unfolding dict_get_def[of "group_step fs exts r f d"] group_step_lookup
  by (simp add: dict_get_def)

lemma group_fold_lookup:
  "map_of (fold (\<lambda>(r, f). group_step fs exts r f) xs d) k =
     (let new = map (\<lambda>(r, f). path_join r f)
                  (filter (\<lambda>(r, f). ext_key fs f = k \<and> selected exts k) xs)
      in if new = [] then map_of d k else Some (dict_get d k [] @ new))"
proof (induction xs arbitrary: d)
  case Nil
  then show ?case by simp
next
  case (Cons x xs)
  obtain r f where x: "x = (r, f)" by (cases x)
  have "fold (\<lambda>(r, f). group_step fs exts r f) (x # xs) d
      = fold (\<lambda>(r, f). group_step fs exts r f) xs (group_step fs exts r f d)"
    by (simp add: x)
  then show ?case
    by (simp add: x Cons.IH group_step_lookup group_step_get Let_def)
qed

lemma group_fold_distinct:
  "distinct (map fst d) \<Longrightarrow> distinct (map fst (fold (\<lambda>(r, f). group_step fs exts r f) xs d))"
proof (induction xs arbitrary: d)
  case Nil
  then show ?case by simp
next
  case (Cons x xs)
  obtain r f where x: "x = (r, f)" by (cases x)
  have "distinct (map fst (group_step fs exts r f d))"
    using Cons.prems by (simp add: group_step_def distinct_update)
  from Cons.IH[OF this] show ?case by (simp add: x)
qed

lemma sum_update_append:
  "sum_list (map (\<lambda>kv. length (snd kv)) (AList.update k (dict_get d k [] @ [p]) d))
     = sum_list (map (\<lambda>kv. length (snd kv)) d) + 1"
  by (induction d) (auto simp: dict_get_def)

lemma group_fold_sum:
  "sum_list (map (\<lambda>kv. length (snd kv)) (fold (\<lambda>(r, f). group_step fs None r f) xs d))
     = sum_list (map (\<lambda>kv. length (snd kv)) d) + length xs"
proof (induction xs arbitrary: d)
  case Nil
  then show ?case by simp
next
  case (Cons x xs)
  obtain r f where x: "x = (r, f)" by (cases x)
  have "group_step fs None r f d = AList.update (ext_key fs f) (dict_get d (ext_key fs f) [] @ [path_join r f]) d"
    by (simp add: group_step_def selected_def)
  then show ?case
    by (simp add: x Cons.IH sum_update_append)
qed

lemma file_paths_scenario:
  "file_paths scenario_fs scenario_dir = [''d/a.py'', ''d/b.TXT'', ''d/c'']"
  by (simp add: file_paths_def all_files_scenario path_join_examples)

lemma file_paths_mixed:
  "file_paths mixed_fs mixed_dir = [''./x.bin'', ''./locked'', ''./sub/y.bin'', ''./sub/z.log'']"
  by (simp add: file_paths_def all_files_mixed path_join_examples)

lemma files_by_ext_scenario:
  "get_files_by_extension scenario_fs scenario_dir None =
     [(''.py'', [''d/a.py'']), (''.txt'', [''d/b.TXT'']), ('''', [''d/c''])]"
  by (simp add: get_files_by_extension_fold all_files_scenario group_step_def selected_def
      ext_key_examples path_join_examples dict_get_def)

lemma files_by_ext_of_listing:
  assumes "lower_on_ascii fs"
    and "listing fs ''d'' = [File ''a.py'', File ''b.TXT'', File ''c'']"
  shows "get_files_by_extension fs \<lparr>directory = ''d''\<rparr> None =
     [(''.py'', [''d/a.py'']), (''.txt'', [''d/b.TXT'']), ('''', [''d/c''])]"
proof -
  have files: "all_files fs \<lparr>directory = ''d''\<rparr>
      = [(''d'', ''a.py''), (''d'', ''b.TXT''), (''d'', ''c'')]"
    by (simp add: all_files_def walk_files_def os_walk_def assms(2))
  have split: "snd (splitext ''a.py'') = ''.py''" "snd (splitext ''b.TXT'') = ''.TXT''"
    "snd (splitext ''c'') = []"
    by (simp_all add: splitext_def rfind_def sep_def extsep_def)
  have keys: "ext_key fs ''a.py'' = ''.py''" "ext_key fs ''b.TXT'' = ''.txt''"
    "ext_key fs ''c'' = []"
    by (simp_all add: ext_key_ascii[OF assms(1)] split is_ascii_def ascii_lower_def
        ascii_lower_char_def)
  show ?thesis
    by (simp add: get_files_by_extension_fold files group_step_def selected_def keys
        path_join_examples dict_get_def)
qed

text \<open>
  C4. \<^verbatim>\<open>get_files_by_extension\<close> without a filter maps every extension key \<open>k\<close> to the
  paths (\<^verbatim>\<open>os.path.join(root, file)\<close>, the file name unchanged) of exactly the files of the
  walk whose key is \<open>k\<close>, in traversal order; a key without files is absent; no key occurs
  twice. The files of the walk are the files of the tree below the root, at every depth
  (\<open>tree_files\<close>). The key of a file name is \<^verbatim>\<open>str.lower\<close> of its extension: of the end of
  the name from its last dot on when a character other than a dot comes before that dot,
  of the empty string otherwise. Where \<^verbatim>\<open>str.lower\<close> is what it is on ASCII strings, the
  key of a name without extension is empty, the key of an ASCII extension is the dot and
  the extension with \<open>A\<close> to \<open>Z\<close> lower-cased, and the directory with \<^verbatim>\<open>a.py\<close>, \<^verbatim>\<open>b.TXT\<close>
  and \<^verbatim>\<open>c\<close> gives the keys \<^verbatim>\<open>.py\<close>, \<^verbatim>\<open>.txt\<close> and the empty string.
\<close>

theorem files_grouped_by_extension_key:
  "map_of (get_files_by_extension fs self None) k =
     (let ps = map (\<lambda>(r, f). path_join r f)
                 (filter (\<lambda>(r, f). ext_key fs f = k) (all_files fs self))
      in if ps = [] then None else Some ps)
   \<and> distinct (map fst (get_files_by_extension fs self None))
   \<and> mset (file_paths fs self) = mset (tree_files (directory self) (listing fs (directory self)))
   \<and> (sep \<notin> set stem \<and> sep \<notin> set rest \<and> extsep \<notin> set rest \<and> (\<exists>c \<in> set stem. c \<noteq> extsep)
        \<longrightarrow> ext_key fs (stem @ extsep # rest) = str_lower fs (extsep # rest))
   \<and> (sep \<notin> set rest \<and> extsep \<notin> set rest
        \<longrightarrow> ext_key fs (replicate n extsep @ rest) = str_lower fs [])
   \<and> (lower_on_ascii fs \<longrightarrow>
        str_lower fs [] = []
        \<and> (list_all is_ascii rest \<longrightarrow> str_lower fs (extsep # rest) = extsep # ascii_lower rest))
   \<and> (lower_on_ascii fs \<and> listing fs ''d'' = [File ''a.py'', File ''b.TXT'', File ''c'']
        \<longrightarrow> get_files_by_extension fs \<lparr>directory = ''d''\<rparr> None
             = [(''.py'', [''d/a.py'']), (''.txt'', [''d/b.TXT'']), ('''', [''d/c''])])"
proof -
  have "map_of (get_files_by_extension fs self None) k =
     (let ps = map (\<lambda>(r, f). path_join r f)
                 (filter (\<lambda>(r, f). ext_key fs f = k) (all_files fs self))
      in if ps = [] then None else Some ps)"
    by (simp add: get_files_by_extension_fold group_fold_lookup selected_def dict_get_def Let_def)
  moreover have "distinct (map fst (get_files_by_extension fs self None))"
    by (simp add: get_files_by_extension_fold group_fold_distinct)
  ultimately show ?thesis
    using mset_file_paths ext_key_extension ext_key_no_extension lower_on_ascii_empty
      lower_on_ascii_extension files_by_ext_of_listing
    by simp
qed

theorem files_grouped_by_extension_key_witness:
  "str_lower scenario_fs = ascii_lower
   \<and> listing scenario_fs ''d'' = [File ''a.py'', File ''b.TXT'', File ''c'']
   \<and> get_files_by_extension scenario_fs \<lparr>directory = ''d''\<rparr> None
       = [(''.py'', [''d/a.py'']), (''.txt'', [''d/b.TXT'']), ('''', [''d/c''])]
   \<and> ext_key scenario_fs ''b.TXT'' = ''.txt''
   \<and> ext_key scenario_fs ''.bashrc'' = []
   \<and> ext_key scenario_fs ''c'' = []"
proof -
  have env: "lower_on_ascii scenario_fs"
    by (simp add: lower_on_ascii_def scenario_fs_def)
  have dir: "listing scenario_fs ''d'' = [File ''a.py'', File ''b.TXT'', File ''c'']"
    by (simp add: scenario_fs_def)
  have lower: "str_lower scenario_fs = ascii_lower"
    by (simp add: scenario_fs_def)
  have a: "sep \<notin> set ''b'' \<and> sep \<notin> set ''TXT'' \<and> extsep \<notin> set ''TXT''
      \<and> (\<exists>c \<in> set ''b''. c \<noteq> extsep)"
    by (simp add: sep_def extsep_def)
  have b: "sep \<notin> set ''bashrc'' \<and> extsep \<notin> set ''bashrc''"
    by (simp add: sep_def extsep_def)
  have c: "sep \<notin> set ''c'' \<and> extsep \<notin> set ''c''"
    by (simp add: sep_def extsep_def)
  have ascii: "list_all is_ascii ''TXT''"
    by (simp add: is_ascii_def)
  note t1 = files_grouped_by_extension_key[of scenario_fs scenario_dir "[]" "''b''" "''TXT''" 0]
  note t2 = files_grouped_by_extension_key[of scenario_fs scenario_dir "[]" "[]" "''bashrc''" 1]
  note t3 = files_grouped_by_extension_key[of scenario_fs scenario_dir "[]" "[]" "''c''" 0]
  have k1: "ext_key scenario_fs (''b'' @ extsep # ''TXT'') = extsep # ascii_lower ''TXT''"
    using t1 a env ascii by simp
  have k2: "ext_key scenario_fs (replicate 1 extsep @ ''bashrc'') = []"
    using t2 b env by simp
  have k3: "ext_key scenario_fs (replicate 0 extsep @ ''c'') = []"
    using t3 c env by simp
  have g: "get_files_by_extension scenario_fs \<lparr>directory = ''d''\<rparr> None
       = [(''.py'', [''d/a.py'']), (''.txt'', [''d/b.TXT'']), ('''', [''d/c''])]"
    using t1 env dir by simp
  from k1 k2 k3 g dir lower show ?thesis
    by (simp add: extsep_def ascii_lower_def ascii_lower_char_def)
qed

subsection \<open>Counting files\<close>

lemma stats_fold_count:
  "fst (fold (\<lambda>(r, f). stats_step fs r f) xs acc)
     = fst acc + length (filter (\<lambda>(r, f). accessible fs (path_join r f)) xs)"
  by (induction xs arbitrary: acc)
     (auto simp: stats_step_def accessible_def split: sum.splits prod.splits)

lemma total_files_count:
  "total_files (get_file_stats fs self) = length (filter (accessible fs) (file_paths fs self))"
proof -
  have "total_files (get_file_stats fs self)
      = fst (fold (\<lambda>(r, f). stats_step fs r f) (all_files fs self) (0, 0, []))"
    by (simp add: get_file_stats_fold split: prod.splits)
  also have "\<dots> = length (filter (\<lambda>(r, f). accessible fs (path_join r f)) (all_files fs self))"
    by (simp only: stats_fold_count) simp
  also have "\<dots> = length (filter (accessible fs) (file_paths fs self))"
    by (simp add: file_paths_def filter_map comp_def case_prod_unfold)
  finally show ?thesis .
qed

text \<open>
  C5. When \<^verbatim>\<open>os.path.getsize\<close> returns for every file of the walk, \<open>total_files\<close> of
  \<^verbatim>\<open>get_file_stats\<close> is the sum of the lengths of the lists of
  \<^verbatim>\<open>get_files_by_extension\<close> without a filter.
\<close>

theorem total_files_matches_grouping:
  assumes "\<forall>p \<in> set (file_paths fs self). accessible fs p"
  shows "total_files (get_file_stats fs self)
     = sum_list (map (\<lambda>kv. length (snd kv)) (get_files_by_extension fs self None))"
proof -
  have "filter (accessible fs) (file_paths fs self) = file_paths fs self"
    using assms by (simp add: filter_id_conv)
  then have "total_files (get_file_stats fs self) = length (all_files fs self)"
    by (simp add: total_files_count file_paths_def)
  then show ?thesis
    by (simp add: get_files_by_extension_fold group_fold_sum)
qed

theorem total_files_matches_grouping_witness:
  "file_paths scenario_fs scenario_dir = [''d/a.py'', ''d/b.TXT'', ''d/c'']
   \<and> accessible scenario_fs ''d/a.py'' \<and> accessible scenario_fs ''d/b.TXT''
   \<and> accessible scenario_fs ''d/c''
   \<and> total_files (get_file_stats scenario_fs scenario_dir) = 3
   \<and> sum_list (map (\<lambda>kv. length (snd kv))
         (get_files_by_extension scenario_fs scenario_dir None)) = 3"
proof -
  have h: "\<forall>p \<in> set (file_paths scenario_fs scenario_dir). accessible scenario_fs p"
    by (simp add: file_paths_scenario accessible_def getsize_scenario)
  from total_files_matches_grouping[OF h] h show ?thesis
    by (simp add: stats_scenario file_paths_scenario)
qed

subsection \<open>Large files\<close>

lemma large_step_entry:
  "large_step fs thr r f acc
     = acc @ (case large_entry fs thr (path_join r f) of None \<Rightarrow> [] | Some e \<Rightarrow> [e])"
  by (simp add: large_step_def large_entry_def split: sum.splits)

lemma large_fold:
  "fold (\<lambda>(r, f). large_step fs thr r f) xs acc
     = acc @ List.map_filter (large_entry fs thr) (map (\<lambda>(r, f). path_join r f) xs)"
proof (induction xs arbitrary: acc)
  case Nil
  then show ?case by (simp add: map_filter_simps)
next
  case (Cons x xs)
  obtain r f where x: "x = (r, f)" by (cases x)
  have "fold (\<lambda>(r, f). large_step fs thr r f) (x # xs) acc
      = fold (\<lambda>(r, f). large_step fs thr r f) xs (large_step fs thr r f acc)"
    by (simp add: x)
  also have "\<dots> = large_step fs thr r f acc
      @ List.map_filter (large_entry fs thr) (map (\<lambda>(r, f). path_join r f) xs)"
    by (rule Cons.IH)
  also have "\<dots> = acc
      @ List.map_filter (large_entry fs thr) (map (\<lambda>(r, f). path_join r f) (x # xs))"
    by (simp add: x large_step_entry map_filter_simps split: option.splits)
  finally show ?case .
qed

lemma collect_large_files_eq:
  "collect_large_files fs self m
     = List.map_filter (large_entry fs (m * 1024 * 1024)) (file_paths fs self)"
  unfolding collect_large_files_def all_files_def file_paths_def Let_def
  by (simp only: fold_walk_files large_fold) simp

lemma large_entry_props:
  "e \<in> set (List.map_filter (large_entry fs thr) ps) \<Longrightarrow>
     path e \<in> set ps \<and> os_path_getsize fs (path e) = Inr (size_bytes e)
     \<and> thr \<le> of_nat (size_bytes e)
     \<and> size_mb e = py_round (truediv (size_bytes e) (1024 * 1024)) 2"
  by (induction ps) (auto simp: map_filter_simps large_entry_def split: sum.splits if_splits option.splits)


lemma set_sorted_reverse: "set (sorted_reverse f xs) = set xs"
  by (simp add: sorted_reverse_def)


lemma sorted_reverse_desc: "sorted_wrt (\<lambda>a b. f b \<le> f a) (sorted_reverse f xs)"
proof -
  have "sorted (map f (sort_key f (rev xs)))" by simp
  then have "sorted_wrt (\<lambda>a b. f a \<le> f b) (sort_key f (rev xs))"
    by (simp only: sorted_map)
  then show ?thesis
    by (simp add: sorted_reverse_def sorted_wrt_rev)
qed

lemma sorted_reverse_stable:
  "filter (\<lambda>e. f e = k) (sorted_reverse f xs) = filter (\<lambda>e. f e = k) xs"
  by (simp add: sorted_reverse_def rev_filter[symmetric] sort_key_stable)

lemma filter_size_large:
  "map path (filter (\<lambda>e. size_bytes e = k) (List.map_filter (large_entry fs thr) ps))
     = filter (\<lambda>p. os_path_getsize fs p = Inr k \<and> thr \<le> of_nat k) ps"
  by (induction ps) (auto simp: map_filter_simps large_entry_def split: sum.splits)

lemma large_entry_mixed:
  "large_entry mixed_fs 0 ''./x.bin'' = Some \<lparr>path = ''./x.bin'', size_bytes = 131072, size_mb = 3 / 25\<rparr>"
  "large_entry mixed_fs 0 ''./locked'' = None"
  "large_entry mixed_fs 0 ''./sub/y.bin'' = Some \<lparr>path = ''./sub/y.bin'', size_bytes = 12582912, size_mb = 12\<rparr>"
  "large_entry mixed_fs 0 ''./sub/z.log'' = Some \<lparr>path = ''./sub/z.log'', size_bytes = 131072, size_mb = 3 / 25\<rparr>"
  "large_entry mixed_fs 10485760 ''./x.bin'' = None"
  "large_entry mixed_fs 10485760 ''./locked'' = None"
  "large_entry mixed_fs 10485760 ''./sub/y.bin'' = Some \<lparr>path = ''./sub/y.bin'', size_bytes = 12582912, size_mb = 12\<rparr>"
  "large_entry mixed_fs 10485760 ''./sub/z.log'' = None"
  by (simp_all add: large_entry_def getsize_mixed truediv_small py_round_def
      round_half_even_def Let_def)

lemma collect_mixed_0:
  "collect_large_files mixed_fs mixed_dir 0 =
     [\<lparr>path = ''./x.bin'', size_bytes = 131072, size_mb = 3 / 25\<rparr>,
      \<lparr>path = ''./sub/y.bin'', size_bytes = 12582912, size_mb = 12\<rparr>,
      \<lparr>path = ''./sub/z.log'', size_bytes = 131072, size_mb = 3 / 25\<rparr>]"
  by (simp add: collect_large_files_eq file_paths_mixed map_filter_simps large_entry_mixed)

lemma large_mixed_0:
  "find_large_files mixed_fs mixed_dir 0 =
     [\<lparr>path = ''./sub/y.bin'', size_bytes = 12582912, size_mb = 12\<rparr>,
      \<lparr>path = ''./x.bin'', size_bytes = 131072, size_mb = 3 / 25\<rparr>,
      \<lparr>path = ''./sub/z.log'', size_bytes = 131072, size_mb = 3 / 25\<rparr>]"
  by (simp add: find_large_files_def collect_mixed_0 sorted_reverse_def)

lemma large_mixed_10:
  "find_large_files mixed_fs mixed_dir 10 =
     [\<lparr>path = ''./sub/y.bin'', size_bytes = 12582912, size_mb = 12\<rparr>]"
  by (simp add: find_large_files_def collect_large_files_eq file_paths_mixed map_filter_simps
      large_entry_mixed sorted_reverse_def)

lemma float_of_sparse: "float_of_nat 9007199254756721 = 9007199254756720"
proof -
  have "bit_length 9007199254756721 = 54"
    by (simp add: bit_length.simps)
  then show ?thesis
    by (simp add: float_of_nat_def round_half_even_def Let_def)
qed

lemma large_sparse:
  "find_large_files sparse_fs scenario_dir 0 =
     [\<lparr>path = ''d/disk.img'', size_bytes = 9007199254756721, size_mb = 858993459201 / 100\<rparr>]"
proof -
  have "file_paths sparse_fs scenario_dir = [''d/disk.img'']"
    by (simp add: file_paths_def all_files_def walk_files_def os_walk_def scenario_dir_def
        sparse_fs_def path_join_def startswith_sep_def endswith_sep_def sep_def)
  moreover have "large_entry sparse_fs 0 ''d/disk.img''
      = Some \<lparr>path = ''d/disk.img'', size_bytes = 9007199254756721,
               size_mb = 858993459201 / 100\<rparr>"
    by (simp add: large_entry_def sparse_fs_def getsize_of_def truediv_def float_of_sparse
        py_round_def round_half_even_def Let_def)
  ultimately show ?thesis
    by (simp add: find_large_files_def collect_large_files_eq map_filter_simps
        sorted_reverse_def)
qed

text \<open>
  C1. \<open>total_size_mb\<close> of the summary and \<open>size_mb\<close> of every entry of
  \<^verbatim>\<open>find_large_files\<close> are \<^verbatim>\<open>round(size_bytes / (1024 * 1024), 2)\<close>: the float quotient
  \<open>truediv\<close> rounded by the same function \<open>py_round\<close> (ties to even) in both places. Below
  \<open>2 ^ 53\<close> bytes the float quotient is the exact quotient. In the examples 131072 bytes,
  exactly 0.125 MB, round to 0.12, and a file of \<open>2 ^ 53 + 15729\<close> bytes has
  \<open>size_mb\<close> 8589934592.01, where the exact quotient would round to 8589934592.02.
\<close>

theorem size_mb_is_rounded_quotient:
  "total_size_mb (get_file_stats fs self)
     = py_round (truediv (total_size_bytes (get_file_stats fs self)) (1024 * 1024)) 2
   \<and> (\<forall>e \<in> set (find_large_files fs self m).
         size_mb e = py_round (truediv (size_bytes e) (1024 * 1024)) 2)
   \<and> (n < 2 ^ 53 \<longrightarrow> truediv n (1024 * 1024) = of_nat n / 1048576)"
proof -
  have "total_size_mb (get_file_stats fs self)
     = py_round (truediv (total_size_bytes (get_file_stats fs self)) (1024 * 1024)) 2"
    by (simp add: get_file_stats_fold split: prod.splits)
  moreover have "\<forall>e \<in> set (find_large_files fs self m).
         size_mb e = py_round (truediv (size_bytes e) (1024 * 1024)) 2"
  proof
    fix e assume "e \<in> set (find_large_files fs self m)"
    then have "e \<in> set (List.map_filter (large_entry fs (m * 1024 * 1024)) (file_paths fs self))"
      by (simp add: find_large_files_def set_sorted_reverse collect_large_files_eq)
    from large_entry_props[OF this]
    show "size_mb e = py_round (truediv (size_bytes e) (1024 * 1024)) 2" by simp
  qed
  moreover have "n < 2 ^ 53 \<longrightarrow> truediv n (1024 * 1024) = of_nat n / 1048576"
    by (simp add: truediv_small)
  ultimately show ?thesis by blast
qed

theorem size_mb_is_rounded_quotient_witness:
  "\<lparr>path = ''./x.bin'', size_bytes = 131072, size_mb = 3 / 25\<rparr>
      \<in> set (find_large_files mixed_fs mixed_dir 0)
   \<and> (131072 :: nat) < 2 ^ 53
   \<and> py_round (truediv 131072 (1024 * 1024)) 2 = 3 / 25
   \<and> truediv 131072 (1024 * 1024) = 1 / 8
   \<and> total_size_bytes (get_file_stats mixed_fs mixed_dir) = 12845056
   \<and> py_round (truediv 12845056 (1024 * 1024)) 2 = 49 / 4
   \<and> \<lparr>path = ''d/disk.img'', size_bytes = 9007199254756721, size_mb = 858993459201 / 100\<rparr>
      \<in> set (find_large_files sparse_fs scenario_dir 0)
   \<and> py_round (truediv 9007199254756721 (1024 * 1024)) 2 = 858993459201 / 100
   \<and> py_round (9007199254756721 / 1048576) 2 = 858993459202 / 100"
proof -
  note mixed = size_mb_is_rounded_quotient[of mixed_fs mixed_dir 0 131072]
  note sparse = size_mb_is_rounded_quotient[of sparse_fs scenario_dir 0 0]
  have m: "\<lparr>path = ''./x.bin'', size_bytes = 131072, size_mb = 3 / 25\<rparr>
      \<in> set (find_large_files mixed_fs mixed_dir 0)"
    by (simp add: large_mixed_0)
  have s: "\<lparr>path = ''d/disk.img'', size_bytes = 9007199254756721,
            size_mb = 858993459201 / 100\<rparr>
      \<in> set (find_large_files sparse_fs scenario_dir 0)"
    by (simp add: large_sparse)
  have small: "(131072 :: nat) < 2 ^ 53"
    by simp
  have v1: "py_round (truediv 131072 (1024 * 1024)) 2 = 3 / 25"
    using mixed m by fastforce
  have v2: "truediv 131072 (1024 * 1024) = 1 / 8"
    using mixed small by simp
  have t: "total_size_bytes (get_file_stats mixed_fs mixed_dir) = 12845056"
    by (simp add: stats_mixed)
  have v3: "py_round (truediv 12845056 (1024 * 1024)) 2 = 49 / 4"
    using mixed by (simp add: stats_mixed)
  have v4: "py_round (truediv 9007199254756721 (1024 * 1024)) 2 = 858993459201 / 100"
    using sparse s by fastforce
  have exact: "py_round (9007199254756721 / 1048576) 2 = 858993459202 / 100"
    by (simp add: py_round_def round_half_even_def Let_def)
  from m small v1 v2 t v3 s v4 exact show ?thesis
    by blast
qed

text \<open>
  C2. The list returned by \<^verbatim>\<open>find_large_files\<close> is non-increasing in \<open>size_bytes\<close>, also
  stated for adjacent entries, and for every size \<open>k\<close> the entries of that size are, in
  order, the files of the walk with that size (at or above the threshold): equal sizes
  keep the order of the traversal.
\<close>

theorem find_large_files_sorted_stable:
  "sorted_wrt (\<lambda>a b. size_bytes b \<le> size_bytes a) (find_large_files fs self m)
   \<and> (\<forall>i. Suc i < length (find_large_files fs self m) \<longrightarrow>
         size_bytes (find_large_files fs self m ! Suc i)
           \<le> size_bytes (find_large_files fs self m ! i))
   \<and> (\<forall>k. map path (filter (\<lambda>e. size_bytes e = k) (find_large_files fs self m))
         = filter (\<lambda>p. os_path_getsize fs p = Inr k \<and> m * 1024 * 1024 \<le> of_nat k)
             (file_paths fs self))"
proof -
  let ?r = "find_large_files fs self m"
  have sorted: "sorted_wrt (\<lambda>a b. size_bytes b \<le> size_bytes a) ?r"
    unfolding find_large_files_def by (rule sorted_reverse_desc)
  have adjacent: "size_bytes (?r ! Suc i) \<le> size_bytes (?r ! i)" if "Suc i < length ?r" for i
    using sorted_wrt_nth_less[OF sorted, of i "Suc i"] that by simp
  have stable: "map path (filter (\<lambda>e. size_bytes e = k) ?r)
         = filter (\<lambda>p. os_path_getsize fs p = Inr k \<and> m * 1024 * 1024 \<le> of_nat k)
             (file_paths fs self)" for k
    unfolding find_large_files_def sorted_reverse_stable collect_large_files_eq
    by (rule filter_size_large)
  from sorted adjacent stable show ?thesis by blast
qed

theorem find_large_files_sorted_stable_witness:
  "Suc 1 < length (find_large_files mixed_fs mixed_dir 0)
   \<and> size_bytes (find_large_files mixed_fs mixed_dir 0 ! Suc 1)
       \<le> size_bytes (find_large_files mixed_fs mixed_dir 0 ! 1)
   \<and> map path (filter (\<lambda>e. size_bytes e = 131072) (find_large_files mixed_fs mixed_dir 0))
       = [''./x.bin'', ''./sub/z.log'']"
  using find_large_files_sorted_stable[of mixed_fs mixed_dir 0]
  by (simp add: large_mixed_0)


subsection \<open>Files whose size cannot be read\<close>

lemma file_names_without:
  "map (Pair top_dir) (file_names (without_inaccessible size_of top_dir es))
     = filter (readable size_of) (map (Pair top_dir) (file_names es))"
  by (induction size_of top_dir es rule: without_inaccessible.induct)
     (auto simp: readable_def split: sum.splits)

lemma walk_subdirs_without:
  "walk_files (walk_subdirs top_dir (without_inaccessible size_of top_dir es))
     = filter (readable size_of) (walk_files (walk_subdirs top_dir es))"
proof (induction size_of top_dir es rule: without_inaccessible.induct)
  case (1 size_of top_dir)
  then show ?case by (simp add: walk_files_def)
next
  case (2 size_of top_dir n es)
  then show ?case by (simp split: sum.splits)
next
  case (3 size_of top_dir n sub es)
  have "walk_files (walk (path_join top_dir n) (without_inaccessible size_of (path_join top_dir n) sub))
      = filter (readable size_of) (walk_files (walk (path_join top_dir n) sub))"
    unfolding walk_files_walk by (simp add: "3.IH"(1) file_names_without)
  with "3.IH"(2) show ?case
    by (simp add: walk_files_append del: walk.simps)
qed

lemma all_files_accessible_part:
  "all_files (accessible_part fs) self
     = filter (readable (os_path_getsize fs)) (all_files fs self)"
  unfolding all_files_def os_walk_def walk_files_walk accessible_part_def
  by (simp add: walk_subdirs_without file_names_without)

lemma fold_filter_skip:
  assumes "\<And>x acc. \<not> P x \<Longrightarrow> g x acc = acc"
  shows "fold g (filter P xs) acc = fold g xs acc"
  using assms by (induction xs arbitrary: acc) auto

lemma getsize_accessible_part [simp]:
  "os_path_getsize (accessible_part fs) = os_path_getsize fs"
  by (simp add: accessible_part_def)

lemma ext_key_accessible_part [simp]: "ext_key (accessible_part fs) name = ext_key fs name"
  by (simp add: ext_key_def accessible_part_def)

lemma stats_step_accessible_part: "stats_step (accessible_part fs) = stats_step fs"
  by (intro ext) (simp add: stats_step_def split: prod.splits sum.splits)

lemma large_step_accessible_part: "large_step (accessible_part fs) = large_step fs"
  by (intro ext) (simp add: large_step_def)

lemma get_file_stats_accessible_part:
  "get_file_stats (accessible_part fs) self = get_file_stats fs self"
proof -
  have "fold (\<lambda>(r, f). stats_step fs r f)
          (filter (readable (os_path_getsize fs)) (all_files fs self)) (0, 0, [])
      = fold (\<lambda>(r, f). stats_step fs r f) (all_files fs self) (0, 0, [])"
    by (rule fold_filter_skip)
       (auto simp: readable_def stats_step_def split: sum.splits prod.splits)
  then show ?thesis
    by (simp add: get_file_stats_fold all_files_accessible_part stats_step_accessible_part)
qed

lemma collect_large_files_fold:
  "collect_large_files fs self m
     = fold (\<lambda>(r, f). large_step fs (m * 1024 * 1024) r f) (all_files fs self) []"
  unfolding collect_large_files_def all_files_def Let_def
  by (simp only: fold_walk_files)

lemma find_large_files_accessible_part:
  "find_large_files (accessible_part fs) self m = find_large_files fs self m"
proof -
  have "fold (\<lambda>(r, f). large_step fs (m * 1024 * 1024) r f)
          (filter (readable (os_path_getsize fs)) (all_files fs self)) []
      = fold (\<lambda>(r, f). large_step fs (m * 1024 * 1024) r f) (all_files fs self) []"
    by (rule fold_filter_skip)
       (auto simp: readable_def large_step_def split: sum.splits prod.splits)
  then show ?thesis
    by (simp add: find_large_files_def collect_large_files_fold all_files_accessible_part
        large_step_accessible_part)
qed

lemma stats_fold_size:
  "fst (snd (fold (\<lambda>(r, f). stats_step fs r f) xs acc))
     = fst (snd acc) + sum_list (map (\<lambda>(r, f). size_or_zero fs (path_join r f)) xs)"
  by (induction xs arbitrary: acc)
     (auto simp: stats_step_def size_or_zero_def split: sum.splits prod.splits)

lemma total_size_sum:
  "total_size_bytes (get_file_stats fs self)
     = sum_list (map (size_or_zero fs) (file_paths fs self))"
proof -
  have "total_size_bytes (get_file_stats fs self)
      = fst (snd (fold (\<lambda>(r, f). stats_step fs r f) (all_files fs self) (0, 0, [])))"
    by (simp add: get_file_stats_fold split: prod.splits)
  also have "\<dots> = sum_list (map (\<lambda>(r, f). size_or_zero fs (path_join r f)) (all_files fs self))"
    by (simp only: stats_fold_size) simp
  also have "\<dots> = sum_list (map (size_or_zero fs) (file_paths fs self))"
    by (simp add: file_paths_def comp_def case_prod_unfold)
  finally show ?thesis .
qed

lemma accessible_entry:
  "e \<in> set (find_large_files fs self m) \<Longrightarrow> accessible fs (path e)"
proof -
  assume "e \<in> set (find_large_files fs self m)"
  then have "e \<in> set (List.map_filter (large_entry fs (m * 1024 * 1024)) (file_paths fs self))"
    by (simp add: find_large_files_def set_sorted_reverse collect_large_files_eq)
  from large_entry_props[OF this] show ?thesis
    by (simp add: accessible_def)
qed

lemma file_paths_accessible_part:
  "file_paths (accessible_part fs) self = filter (accessible fs) (file_paths fs self)"
proof -
  have "readable (os_path_getsize fs) = (\<lambda>(r, f). accessible fs (path_join r f))"
    by (intro ext) (simp add: readable_def accessible_def case_prod_unfold)
  then show ?thesis
    by (simp add: file_paths_def all_files_accessible_part filter_map comp_def case_prod_unfold)
qed

lemma accessible_mixed:
  "accessible mixed_fs ''./x.bin''" "\<not> accessible mixed_fs ''./locked''"
  "accessible mixed_fs ''./sub/y.bin''" "accessible mixed_fs ''./sub/z.log''"
  by (simp_all add: accessible_def getsize_mixed)

text \<open>
  C7. \<^verbatim>\<open>get_file_stats\<close> and \<^verbatim>\<open>find_large_files\<close> return plain values: the only
  exception of their loops, the \<^verbatim>\<open>OSError\<close> of \<^verbatim>\<open>os.path.getsize\<close>, is the \<open>Inl\<close> branch of
  the loop bodies, which leaves the accumulated state unchanged and goes on with the next
  file. Both methods return on a file system exactly what they return on the same file
  system with the unreadable files deleted; \<open>total_files\<close> counts the readable files only,
  \<open>total_size_bytes\<close> adds their sizes only, and every large-file entry is a readable file.
\<close>

theorem inaccessible_files_are_skipped:
  "get_file_stats (accessible_part fs) self = get_file_stats fs self
   \<and> find_large_files (accessible_part fs) self m = find_large_files fs self m
   \<and> file_paths (accessible_part fs) self = filter (accessible fs) (file_paths fs self)
   \<and> total_files (get_file_stats fs self) = length (filter (accessible fs) (file_paths fs self))
   \<and> total_size_bytes (get_file_stats fs self)
       = sum_list (map (size_or_zero fs) (file_paths fs self))
   \<and> (\<forall>e \<in> set (find_large_files fs self m). accessible fs (path e))"
  using get_file_stats_accessible_part find_large_files_accessible_part
    file_paths_accessible_part total_files_count total_size_sum accessible_entry
  by blast

theorem inaccessible_files_are_skipped_witness:
  "''./locked'' \<in> set (file_paths mixed_fs mixed_dir)
   \<and> \<not> accessible mixed_fs ''./locked''
   \<and> file_paths (accessible_part mixed_fs) mixed_dir = [''./x.bin'', ''./sub/y.bin'', ''./sub/z.log'']
   \<and> total_files (get_file_stats (accessible_part mixed_fs) mixed_dir) = 3
   \<and> total_size_bytes (get_file_stats mixed_fs mixed_dir) = 131072 + 12582912 + 131072
   \<and> map path (find_large_files (accessible_part mixed_fs) mixed_dir 0)
       = [''./sub/y.bin'', ''./x.bin'', ''./sub/z.log'']
   \<and> accessible mixed_fs ''./x.bin''"
  using inaccessible_files_are_skipped[of mixed_fs mixed_dir 0]
  by (simp add: file_paths_mixed accessible_mixed stats_mixed large_mixed_0)

subsection \<open>Construction\<close>

lemma str_contains_prefix: "str_contains (needle @ rest) needle"
proof (cases "needle @ rest")
  case Nil
  then show ?thesis by simp
next
  case (Cons a list)
  have "take (length needle) (a # list) = needle"
    unfolding Cons[symmetric] by simp
  then show ?thesis
    unfolding Cons by simp
qed

lemma str_contains_append: "str_contains (before @ needle @ rest) needle"
  by (induction before) (auto simp: str_contains_prefix)

lemma init_scenario:
  "init scenario_fs ''/nonexistent/directory''
     = Inl (ValueError (msg_prefix @ ''/nonexistent/directory'' @ '' '' @ phrase_not_exists))"
  "init scenario_fs ''d/a.py'' = Inl (ValueError (''d/a.py'' @ '' '' @ phrase_not_a_directory))"
  "init scenario_fs ''d'' = Inr scenario_dir"
  by (simp_all add: init_def scenario_fs_def scenario_dir_def)

lemma stat_scenario:
  "\<not> os_path_exists scenario_fs ''/nonexistent/directory''"
  "os_path_exists scenario_fs ''d/a.py''" "\<not> os_path_isdir scenario_fs ''d/a.py''"
  "os_path_exists scenario_fs ''d''" "os_path_isdir scenario_fs ''d''"
  by (simp_all add: scenario_fs_def)

text \<open>
  C6, as stated, fails on the wording of the messages: the message raised for a missing
  path is Russian text and does not contain the English words \<^verbatim>\<open>does not exist\<close>, the one
  for a regular file does not contain \<^verbatim>\<open>not a directory\<close>.
\<close>

theorem init_message_is_not_english:
  "init scenario_fs ''/nonexistent/directory''
     = Inl (ValueError (msg_prefix @ ''/nonexistent/directory'' @ '' '' @ phrase_not_exists))
   \<and> \<not> str_contains (error_message (init scenario_fs ''/nonexistent/directory''))
         ''does not exist''
   \<and> init scenario_fs ''d/a.py'' = Inl (ValueError (''d/a.py'' @ '' '' @ phrase_not_a_directory))
   \<and> \<not> str_contains (error_message (init scenario_fs ''d/a.py'')) ''not a directory''"
  by (simp add: init_scenario error_message_def msg_prefix_def phrase_not_exists_def
      phrase_not_a_directory_def)

text \<open>
  C6, amended. \<^verbatim>\<open>__init__\<close> raises \<^verbatim>\<open>ValueError\<close> exactly when the path does not exist
  (the message contains \<open>phrase_not_exists\<close>, the Russian words for "does not exist") or
  exists but is not a directory (the message contains \<open>phrase_not_a_directory\<close>, the
  Russian words for "is not a directory"); on an existing directory it returns the analyzer
  holding the path as given.
\<close>

theorem init_raises_value_error:
  "(init fs d = Inr \<lparr>directory = d\<rparr> \<longleftrightarrow> os_path_exists fs d \<and> os_path_isdir fs d)
   \<and> (isl (init fs d) \<longleftrightarrow>
        \<not> os_path_exists fs d \<or> (os_path_exists fs d \<and> \<not> os_path_isdir fs d))
   \<and> (\<not> os_path_exists fs d \<longrightarrow>
        init fs d = Inl (ValueError (msg_prefix @ d @ '' '' @ phrase_not_exists))
        \<and> str_contains (error_message (init fs d)) phrase_not_exists)
   \<and> (os_path_exists fs d \<and> \<not> os_path_isdir fs d \<longrightarrow>
        init fs d = Inl (ValueError (d @ '' '' @ phrase_not_a_directory))
        \<and> str_contains (error_message (init fs d)) phrase_not_a_directory)"
proof -
  have a: "str_contains (msg_prefix @ d @ '' '' @ phrase_not_exists) phrase_not_exists"
    using str_contains_append[of "msg_prefix @ d @ '' ''" phrase_not_exists "[]"] by simp
  have b: "str_contains (d @ '' '' @ phrase_not_a_directory) phrase_not_a_directory"
    using str_contains_append[of "d @ '' ''" phrase_not_a_directory "[]"] by simp
  show ?thesis
    using a b by (simp add: init_def error_message_def)
qed

theorem init_raises_value_error_witness:
  "\<not> os_path_exists scenario_fs ''/nonexistent/directory''
   \<and> str_contains (error_message (init scenario_fs ''/nonexistent/directory'')) phrase_not_exists
   \<and> os_path_exists scenario_fs ''d/a.py'' \<and> \<not> os_path_isdir scenario_fs ''d/a.py''
   \<and> str_contains (error_message (init scenario_fs ''d/a.py'')) phrase_not_a_directory
   \<and> os_path_exists scenario_fs ''d'' \<and> os_path_isdir scenario_fs ''d''
   \<and> init scenario_fs ''d'' = Inr \<lparr>directory = ''d''\<rparr>"
  using init_raises_value_error[of scenario_fs "''/nonexistent/directory''"] init_raises_value_error[of scenario_fs "''d/a.py''"]
    init_raises_value_error[of scenario_fs "''d''"] stat_scenario
  by blast

subsection \<open>The report\<close>

lemma generate_report_ok:
  assumes "open_raises fs (path_join (directory self) out) = None"
    and "write_raises fs (path_join (directory self) out) (assemble_report fs self) = None"
  shows "generate_report fs self out
     = (Inr (path_join (directory self) out),
        fs\<lparr>documents := (documents fs)(path_join (directory self) out
                            \<mapsto> Complete (assemble_report fs self))\<rparr>)"
  using assms by (simp add: generate_report_def Let_def)

lemma generate_report_not_opened:
  assumes "open_raises fs (path_join (directory self) out) = Some e"
  shows "generate_report fs self out = (Inl e, fs)"
  using assms by (simp add: generate_report_def Let_def)

lemma generate_report_dump_raises:
  assumes "open_raises fs (path_join (directory self) out) = None"
    and "write_raises fs (path_join (directory self) out) (assemble_report fs self) = Some e"
  shows "generate_report fs self out
     = (Inl e, fs\<lparr>documents := (documents fs)(path_join (directory self) out \<mapsto> Partial)\<rparr>)"
  using assms by (simp add: generate_report_def Let_def)

lemma isabs_path_join: "isabs (path_join a b) \<longleftrightarrow> isabs a \<or> isabs b"
  by (cases a; cases b) (auto simp: isabs_def path_join_def startswith_sep_def)

lemma init_mixed: "init mixed_fs ''.'' = Inr mixed_dir"
  by (simp add: init_def mixed_fs_def mixed_dir_def)

lemma can_open_mixed: "open_raises mixed_fs p = None"
  by (simp add: mixed_fs_def)

lemma dump_mixed: "write_raises mixed_fs p r = None"
  by (simp add: mixed_fs_def)

lemma directory_mixed: "directory mixed_dir = ''.''"
  by (simp add: mixed_dir_def)

text \<open>
  C8. The dictionary assembled by \<^verbatim>\<open>generate_report\<close> has exactly the keys
  \<^verbatim>\<open>directory\<close>, \<^verbatim>\<open>statistics\<close>, \<^verbatim>\<open>files_by_extension\<close> and \<^verbatim>\<open>large_files\<close>, in this
  order; \<^verbatim>\<open>directory\<close> is the path the analyzer was constructed with, \<^verbatim>\<open>large_files\<close> is
  the first 10 entries (all of them when there are fewer) of the sorted list of
  \<^verbatim>\<open>find_large_files()\<close> with its default threshold of 10 MB; when the file is opened and
  \<^verbatim>\<open>json.dump\<close> returns, this dictionary is the document written.
\<close>

theorem report_fields:
  "map fst (assemble_report fs self)
     = [''directory'', ''statistics'', ''files_by_extension'', ''large_files'']
   \<and> map_of (assemble_report fs self) ''directory'' = Some (RDirectory (directory self))
   \<and> map_of (assemble_report fs self) ''statistics'' = Some (RStatistics (get_file_stats fs self))
   \<and> map_of (assemble_report fs self) ''files_by_extension''
       = Some (RFilesByExtension (get_files_by_extension fs self None))
   \<and> map_of (assemble_report fs self) ''large_files''
       = Some (RLargeFiles (take 10 (find_large_files fs self 10)))
   \<and> length (take 10 (find_large_files fs self 10)) \<le> 10
   \<and> (init fs d = Inr self \<longrightarrow>
        map_of (assemble_report fs self) ''directory'' = Some (RDirectory d))
   \<and> (open_raises fs (path_join (directory self) out) = None
        \<and> write_raises fs (path_join (directory self) out) (assemble_report fs self) = None
      \<longrightarrow> fst (generate_report fs self out) = Inr (path_join (directory self) out)
          \<and> documents (snd (generate_report fs self out)) (path_join (directory self) out)
              = Some (Complete (assemble_report fs self)))"
proof -
  have "init fs d = Inr self \<Longrightarrow> directory self = d"
    by (auto simp: init_def split: if_splits)
  then show ?thesis
    by (auto simp: assemble_report_def Let_def generate_report_ok)
qed

theorem report_fields_witness:
  "init mixed_fs ''.'' = Inr mixed_dir
   \<and> open_raises mixed_fs (path_join (directory mixed_dir) ''file_report.json'') = None
   \<and> write_raises mixed_fs (path_join (directory mixed_dir) ''file_report.json'')
        (assemble_report mixed_fs mixed_dir) = None
   \<and> map_of (assemble_report mixed_fs mixed_dir) ''directory'' = Some (RDirectory ''.'')
   \<and> map_of (assemble_report mixed_fs mixed_dir) ''large_files''
       = Some (RLargeFiles [\<lparr>path = ''./sub/y.bin'', size_bytes = 12582912, size_mb = 12\<rparr>])
   \<and> fst (generate_report mixed_fs mixed_dir ''file_report.json'') = Inr ''./file_report.json''"
  using report_fields[of mixed_fs mixed_dir "''.''" "''file_report.json''"]
  by (simp add: large_mixed_10 init_mixed can_open_mixed dump_mixed directory_mixed
      path_join_examples)

text \<open>
  C9, as stated, fails for a relative root: for the directory \<^verbatim>\<open>.\<close> the returned path is
  \<^verbatim>\<open>./file_report.json\<close>, which is not absolute.
\<close>

theorem generate_report_returns_relative_path:
  "init mixed_fs ''.'' = Inr mixed_dir
   \<and> fst (generate_report mixed_fs mixed_dir ''file_report.json'') = Inr ''./file_report.json''
   \<and> \<not> isabs ''./file_report.json''"
  by (simp add: generate_report_def Let_def init_mixed can_open_mixed dump_mixed mixed_dir_def
      path_join_examples isabs_def startswith_sep_def sep_def)

text \<open>
  C9, amended. When the file can be opened for writing and \<^verbatim>\<open>json.dump\<close> returns,
  \<^verbatim>\<open>generate_report\<close> writes the report to \<^verbatim>\<open>os.path.join(root, output_file)\<close>, replacing
  whatever document was at that path and leaving every other document alone, and returns
  that joined path. When \<^verbatim>\<open>open\<close> raises, its exception leaves the method and the
  file system is as before; when \<^verbatim>\<open>json.dump\<close> raises, its exception leaves the method, no
  path is returned and the file holds a part of the report. The joined path is absolute
  exactly when the root or the file name is absolute; for a relative file name and a
  non-empty root it is the root, a separator unless the root ends with one, and the file
  name.
\<close>

theorem generate_report_writes_joined_path:
  "(open_raises fs (path_join (directory self) out) = None
      \<and> write_raises fs (path_join (directory self) out) (assemble_report fs self) = None
    \<longrightarrow> fst (generate_report fs self out) = Inr (path_join (directory self) out)
        \<and> documents (snd (generate_report fs self out)) (path_join (directory self) out)
            = Some (Complete (assemble_report fs self))
        \<and> (\<forall>q. q \<noteq> path_join (directory self) out \<longrightarrow>
              documents (snd (generate_report fs self out)) q = documents fs q))
   \<and> (open_raises fs (path_join (directory self) out) = Some e
    \<longrightarrow> generate_report fs self out = (Inl e, fs))
   \<and> (open_raises fs (path_join (directory self) out) = None
      \<and> write_raises fs (path_join (directory self) out) (assemble_report fs self) = Some e
    \<longrightarrow> fst (generate_report fs self out) = Inl e
        \<and> documents (snd (generate_report fs self out)) (path_join (directory self) out)
            = Some Partial)
   \<and> (isabs (path_join (directory self) out) \<longleftrightarrow> isabs (directory self) \<or> isabs out)
   \<and> (\<not> isabs out \<and> directory self \<noteq> [] \<longrightarrow>
        path_join (directory self) out
          = directory self @ (if endswith_sep (directory self) then [] else [sep]) @ out)"
proof -
  have "\<not> isabs out \<and> directory self \<noteq> [] \<longrightarrow>
          path_join (directory self) out
            = directory self @ (if endswith_sep (directory self) then [] else [sep]) @ out"
    by (simp add: path_join_def isabs_def)
  then show ?thesis
    using isabs_path_join
    by (simp add: generate_report_ok generate_report_not_opened generate_report_dump_raises)
qed

theorem generate_report_writes_joined_path_witness:
  "documents overwrite_fs ''./file_report.json'' = Some (Complete [])
   \<and> fst (generate_report overwrite_fs mixed_dir ''file_report.json'')
       = Inr ''./file_report.json''
   \<and> documents (snd (generate_report overwrite_fs mixed_dir ''file_report.json''))
        ''./file_report.json'' = Some (Complete (assemble_report overwrite_fs mixed_dir))
   \<and> assemble_report overwrite_fs mixed_dir \<noteq> []
   \<and> generate_report readonly_fs mixed_dir ''file_report.json'' = (Inl OSError, readonly_fs)
   \<and> fst (generate_report undecodable_fs mixed_dir ''file_report.json'')
       = Inl UnicodeEncodeError
   \<and> documents (snd (generate_report undecodable_fs mixed_dir ''file_report.json''))
        ''./file_report.json'' = Some Partial
   \<and> \<not> isabs (directory mixed_dir) \<and> \<not> isabs ''file_report.json''
   \<and> \<not> isabs ''./file_report.json''"
proof -
  have p: "path_join (directory mixed_dir) ''file_report.json'' = ''./file_report.json''"
    by (simp add: mixed_dir_def path_join_examples)
  have o: "open_raises overwrite_fs ''./file_report.json'' = None"
    "write_raises overwrite_fs ''./file_report.json'' r = None"
    "documents overwrite_fs ''./file_report.json'' = Some (Complete [])" for r
    by (simp_all add: overwrite_fs_def mixed_fs_def)
  have r: "open_raises readonly_fs ''./file_report.json'' = Some OSError"
    by (simp add: readonly_fs_def)
  have u: "open_raises undecodable_fs ''./file_report.json'' = None"
    "write_raises undecodable_fs ''./file_report.json'' r = Some UnicodeEncodeError" for r
    by (simp_all add: undecodable_fs_def mixed_fs_def)
  have nonempty: "assemble_report overwrite_fs mixed_dir \<noteq> []"
    by (simp add: assemble_report_def Let_def)
  have rel: "\<not> isabs (directory mixed_dir)" "\<not> isabs ''file_report.json''"
    by (simp_all add: mixed_dir_def isabs_def startswith_sep_def sep_def)
  show ?thesis
    using generate_report_writes_joined_path[of overwrite_fs mixed_dir "''file_report.json''"]
      generate_report_writes_joined_path[of readonly_fs mixed_dir "''file_report.json''" OSError]
      generate_report_writes_joined_path[of undecodable_fs mixed_dir "''file_report.json''"
        UnicodeEncodeError]
    unfolding p
    using o r u nonempty rel by simp
qed

end
